theory Spec2Isabelle
  imports Main "HOL-Library.Sublist"
begin

section \<open>Build context and SBOM generator: the data model\<close>

text \<open>
  Modelled from the spec: the declarations of the build \<open>Context\<close> and of the options
  of the SBOM generator (package \<open>sbom\<close>) are not among the sources. The records carry
  the fields that \<open>GenerateSBOM\<close> reads and writes, with the types the specification
  gives them (work directory, requested formats, tarball path, registry tags,
  architecture, output directory; image info of tag, name, architecture and digest). A
  package entry is opaque (type \<open>'p\<close>).
\<close>

record image_info =
  Tag :: string
  Name :: string
  Arch :: string
  Digest :: string

record 'p sbom_options =
  ImageInfo :: image_info
  WorkDir :: string
  OutputDir :: string
  Packages :: "'p list"
  Formats :: "string list"

record Context =
  WorkDir :: string
  SBOMFormats :: "string list"
  TarballPath :: string
  Tags :: "string list"
  Arch :: string
  SBOMPath :: string

section \<open>Image configuration: the data model\<close>

text \<open>
  Modelled from the spec: the declarations of \<open>ImageConfiguration\<close>, \<open>User\<close> and
  \<open>Group\<close> (package \<open>types\<close>) are not among the sources. The records carry the fields
  that \<open>image_configuration.go\<close> reads and writes, with the types the specification
  gives them: strings, ordered lists of strings, and users and groups in declaration
  order (the code ranges over them). The numeric identifiers are only compared with
  \<open>0\<close> and printed with \<open>%d\<close>; they are natural numbers here.
\<close>

record User =
  UserName :: string
  UID :: nat
  GID :: nat

record Group =
  GroupName :: string
  GID :: nat
  Members :: "string list"

record contents =
  Repositories :: "string list"
  Keyring :: "string list"
  Packages :: "string list"

record entrypoint =
  Type :: string
  Command :: string
  ShellFragment :: string
  Services :: "string list"

record accounts =
  RunAs :: string
  Users :: "User list"
  Groups :: "Group list"

record os_release =
  ID :: string
  Name :: string
  PrettyName :: string
  VersionID :: string
  HomeURL :: string

record ImageConfiguration =
  Contents :: contents
  Entrypoint :: entrypoint
  Cmd :: string
  Accounts :: accounts
  OSRelease :: os_release
  VCSUrl :: string

section \<open>Validate and ValidateServiceBundle\<close>

text \<open>
  \<open>Validate\<close> returns a Go \<open>error\<close> built by \<open>fmt.Errorf\<close> from one of four format
  strings and the offending entity. The four messages are the four constructors; the
  entity printed by \<open>%v\<close> is the argument.
\<close>

datatype ConfigurationError =
    UserNoName User     \<comment> \<open>\<open>configured user %v has no configured user name\<close>\<close>
  | UserUIDZero User    \<comment> \<open>\<open>configured user %v has UID 0\<close>\<close>
  | GroupNoName Group   \<comment> \<open>\<open>configured group %v has no configured group name\<close>\<close>
  | GroupGIDZero Group  \<comment> \<open>\<open>configured group %v has GID 0\<close>\<close>

text \<open>
  The receiver is a pointer and is mutated in place, so every function returns the error
  (\<open>None\<close> for \<open>nil\<close>) together with the configuration as it stands on return.
\<close>

definition ValidateServiceBundle ::
  "ImageConfiguration \<Rightarrow> ConfigurationError option \<times> ImageConfiguration" where
  "ValidateServiceBundle ic =
     (let ic1 = ic\<lparr>Entrypoint := (Entrypoint ic)\<lparr>Command := ''/bin/s6-svscan /sv''\<rparr>\<rparr>;
          ic2 = ic1\<lparr>Contents := (Contents ic1)\<lparr>Packages := Packages (Contents ic1) @ [''s6'']\<rparr>\<rparr>
      in (None, ic2))"

text \<open>The loop over \<open>ic.Accounts.Users\<close>: the first failing check returns.\<close>

fun checkUsers :: "User list \<Rightarrow> ConfigurationError option" where
  "checkUsers [] = None"
| "checkUsers (u # us) =
     (if UserName u = '''' then Some (UserNoName u)
      else if UID u = 0 then Some (UserUIDZero u)
      else checkUsers us)"

text \<open>The loop over \<open>ic.Accounts.Groups\<close>.\<close>

fun checkGroups :: "Group list \<Rightarrow> ConfigurationError option" where
  "checkGroups [] = None"
| "checkGroups (g # gs) =
     (if GroupName g = '''' then Some (GroupNoName g)
      else if Group.GID g = 0 then Some (GroupGIDZero g)
      else checkGroups gs)"

text \<open>
  The four \<open>if\<close> statements that close \<open>Validate\<close>, in their order. The second one
  tests \<open>Name\<close> and assigns both \<open>Name\<close> and \<open>PrettyName\<close>.
\<close>

definition defaultOSRelease :: "os_release \<Rightarrow> os_release" where
  "defaultOSRelease r =
     (let r1 = (if ID r = '''' then r\<lparr>ID := ''alpine''\<rparr> else r);
          r2 = (if Name r1 = ''''
                then r1\<lparr>Name := ''apko-generated image'',
                        PrettyName := ''apko-generated image''\<rparr>
                else r1);
          r3 = (if VersionID r2 = '''' then r2\<lparr>VersionID := ''3.16''\<rparr> else r2);
          r4 = (if HomeURL r3 = ''''
                then r3\<lparr>HomeURL := ''https://github.com/chainguard-dev/apko''\<rparr>
                else r3)
      in r4)"

definition Validate ::
  "ImageConfiguration \<Rightarrow> ConfigurationError option \<times> ImageConfiguration" where
  "Validate ic =
     (case (if Type (Entrypoint ic) = ''service-bundle''
            then ValidateServiceBundle ic else (None, ic)) of
        (Some err, ic1) \<Rightarrow> (Some err, ic1)
      | (None, ic1) \<Rightarrow>
          (case checkUsers (Users (Accounts ic1)) of
             Some err \<Rightarrow> (Some err, ic1)
           | None \<Rightarrow>
               (case checkGroups (Groups (Accounts ic1)) of
                  Some err \<Rightarrow> (Some err, ic1)
                | None \<Rightarrow> (None, ic1\<lparr>OSRelease := defaultOSRelease (OSRelease ic1)\<rparr>))))"

section \<open>Diagnostic output\<close>

text \<open>
  A call \<open>log.Printf(format, args...)\<close> is recorded as the format string with its
  arguments; the rendering done by package \<open>fmt\<close> is not modelled.
\<close>

datatype arg = AStr string | AStrs "string list" | ANat nat

type_synonym logline = "string \<times> arg list"

section \<open>ProbeVCSUrl\<close>

text \<open>
  The collaborators of \<open>ProbeVCSUrl\<close> are library code: \<open>filepath.Dir\<close>,
  \<open>git.PlainOpen\<close>, \<open>Repository.Remote\<close>, the URL list of the remote's configuration,
  \<open>url.Parse\<close> and \<open>URL.String\<close>. They are parameters; a Go \<open>error\<close> of a
  collaborator is \<open>Inl\<close> of its message.
\<close>

record ('repo, 'remote, 'url) vcs_env =
  filepath_Dir :: "string \<Rightarrow> string"
  git_PlainOpen :: "string \<Rightarrow> string + 'repo"
  repo_Remote :: "'repo \<Rightarrow> string \<Rightarrow> string + 'remote"
  remote_URLs :: "'remote \<Rightarrow> string list"
  url_Parse :: "string \<Rightarrow> string + 'url"
  url_String :: "'url \<Rightarrow> string"

text \<open>
  \<open>strings.Replace(s, ":", "/", 1)\<close>, the only use of \<open>strings.Replace\<close> in the file:
  the first occurrence of the byte \<open>a\<close> becomes \<open>b\<close>, the rest is kept.
\<close>

fun replaceFirst :: "char \<Rightarrow> char \<Rightarrow> string \<Rightarrow> string" where
  "replaceFirst a b [] = []"
| "replaceFirst a b (c # cs) = (if c = a then b # cs else c # replaceFirst a b cs)"

text \<open>
  A Go run-time panic. \<open>remoteConfig.URLs[0]\<close> is an unchecked slice index: on an empty
  slice the run time panics with \<open>index out of range [0] with length 0\<close>.
\<close>

datatype panic = IndexOutOfRange nat nat

definition storeVCSUrl ::
  "ImageConfiguration \<Rightarrow> string \<Rightarrow> ImageConfiguration \<times> logline list" where
  "storeVCSUrl ic s =
     (let ic1 = ic\<lparr>VCSUrl := s\<rparr>
      in (ic1, [(''detected %s as VCS URL'', [AStr (VCSUrl ic1)])]))"

definition ProbeVCSUrl ::
  "('repo, 'remote, 'url) vcs_env \<Rightarrow> ImageConfiguration \<Rightarrow> string
     \<Rightarrow> panic + (ImageConfiguration \<times> logline list)" where
  "ProbeVCSUrl env ic imageConfigPath =
     (let parentDir = filepath_Dir env imageConfigPath in
      if parentDir = '''' then Inr (ic, [])
      else
        case git_PlainOpen env parentDir of
          Inl err \<Rightarrow> Inr (ic, [(''unable to determine git vcs url: %v'', [AStr err])])
        | Inr repo \<Rightarrow>
            (case repo_Remote env repo ''origin'' of
               Inl err \<Rightarrow> Inr (ic, [(''unable to determine git vcs url: %v'', [AStr err])])
             | Inr remote \<Rightarrow>
                 (case remote_URLs env remote of
                    [] \<Rightarrow> Inl (IndexOutOfRange 0 0)
                  | remoteURL # _ \<Rightarrow>
                      (case url_Parse env remoteURL of
                         Inr normalizedURL \<Rightarrow>
                           Inr (storeVCSUrl ic (url_String env normalizedURL))
                       | Inl _ \<Rightarrow>
                           (let remoteURL1 = replaceFirst CHR '':'' CHR ''/'' remoteURL;
                                remoteURL2 = ''git+ssh://'' @ remoteURL1
                            in case url_Parse env remoteURL2 of
                                 Inl err \<Rightarrow>
                                   Inr (ic, [(''unable to parse %s as a git vcs url: %v'',
                                              [AStr remoteURL2, AStr err])])
                               | Inr normalizedURL \<Rightarrow>
                                   Inr (storeVCSUrl ic (url_String env normalizedURL)))))))"

section \<open>Summarize\<close>

definition Summarize :: "ImageConfiguration \<Rightarrow> logline list" where
  "Summarize ic =
     [(''image configuration:'', []),
      (''  contents:'', []),
      (''    repositories: %v'', [AStrs (Repositories (Contents ic))]),
      (''    keyring:      %v'', [AStrs (Keyring (Contents ic))]),
      (''    packages:     %v'', [AStrs (Packages (Contents ic))])]
     @ (if Type (Entrypoint ic) \<noteq> '''' \<or> Command (Entrypoint ic) \<noteq> ''''
           \<or> length (Services (Entrypoint ic)) \<noteq> 0
        then [(''  entrypoint:'', []),
              (''    type:    %s'', [AStr (Type (Entrypoint ic))]),
              (''    command:     %s'', [AStr (Command (Entrypoint ic))]),
              (''    service: %v'', [AStrs (Services (Entrypoint ic))]),
              (''    shell fragment: %v'', [AStr (ShellFragment (Entrypoint ic))])]
        else [])
     @ (if Cmd ic \<noteq> '''' then [(''  cmd: %s'', [AStr (Cmd ic)])] else [])
     @ (if RunAs (Accounts ic) \<noteq> '''' \<or> length (Users (Accounts ic)) \<noteq> 0
           \<or> length (Groups (Accounts ic)) \<noteq> 0
        then [(''  accounts:'', []),
              (''    runas:  %s'', [AStr (RunAs (Accounts ic))]),
              (''    users:'', [])]
             @ map (\<lambda>u. (''      - uid=%d(%s) gid=%d'',
                          [ANat (UID u), AStr (UserName u), ANat (User.GID u)]))
                   (Users (Accounts ic))
             @ [(''    groups:'', [])]
             @ map (\<lambda>g. (''      - gid=%d(%s) members=%v'',
                          [ANat (Group.GID g), AStr (GroupName g), AStrs (Members g)]))
                   (Groups (Accounts ic))
        else [])"

section \<open>GenerateSBOM\<close>

text \<open>
  The collaborators of \<open>GenerateSBOM\<close>: \<open>tarball.LayerFromFile\<close>, the layer's
  \<open>Digest\<close> (with \<open>digest.String()\<close> applied), \<open>name.NewTag\<close> with the accessors
  \<open>TagStr\<close> and \<open>String\<close> of a tag, and \<open>ReadPackageIndex\<close> and \<open>Generate\<close> of the
  SBOM generator, which see the generator's options. \<open>sbom.NewWithWorkDir\<close> yields the
  generator's initial options.
\<close>

record ('l, 't, 'p) sbom_env =
  sbom_NewWithWorkDir :: "string \<Rightarrow> 'p sbom_options"
  v1tar_LayerFromFile :: "string \<Rightarrow> string + 'l"
  layer_Digest :: "'l \<Rightarrow> string + string"
  name_NewTag :: "string \<Rightarrow> string + 't"
  tag_TagStr :: "'t \<Rightarrow> string"
  tag_String :: "'t \<Rightarrow> string"
  sbom_ReadPackageIndex :: "'p sbom_options \<Rightarrow> string + 'p list"
  sbom_Generate :: "'p sbom_options \<Rightarrow> string + string list"

text \<open>
  The five \<open>fmt.Errorf\<close> wrappers of \<open>GenerateSBOM\<close>, in the order of the stages; the
  wrapped error's message is the last argument.
\<close>

datatype SBOMError =
    LayerReadError string          \<comment> \<open>\<open>failed to create OCI layer from tar.gz: %w\<close>\<close>
  | DigestError string             \<comment> \<open>\<open>could not calculate layer digest: %w\<close>\<close>
  | TagParseError string string    \<comment> \<open>\<open>parsing tag %s: %w\<close>\<close>
  | PackageIndexError string       \<comment> \<open>\<open>getting installed packages from sbom: %w\<close>\<close>
  | SBOMGenerationError string     \<comment> \<open>\<open>generating SBOMs: %w\<close>\<close>

text \<open>What \<open>GenerateSBOM\<close> does to the outside, in the order in which it does it.\<close>

datatype 'p event =
    Printf string
  | CallNewWithWorkDir string
  | CallLayerFromFile string
  | CallDigest
  | CallNewTag string
  | CallReadPackageIndex
  | CallGenerate "'p sbom_options"

definition setImageRef :: "'p sbom_options \<Rightarrow> string \<Rightarrow> string \<Rightarrow> 'p sbom_options" where
  "setImageRef s tg nm =
     s\<lparr>ImageInfo := (ImageInfo s)\<lparr>Tag := tg, image_info.Name := nm\<rparr>\<rparr>"

definition setOptions ::
  "'p sbom_options \<Rightarrow> Context \<Rightarrow> string \<Rightarrow> 'p list \<Rightarrow> 'p sbom_options" where
  "setOptions s bc digest packages =
     s\<lparr>ImageInfo := (ImageInfo s)\<lparr>image_info.Arch := Arch bc, Digest := digest\<rparr>,
       OutputDir := SBOMPath bc,
       sbom_options.Packages := packages,
       Formats := SBOMFormats bc\<rparr>"

text \<open>The tail of \<open>GenerateSBOM\<close>, from \<open>ReadPackageIndex\<close> on.\<close>

definition readIndexAndGenerate ::
  "('l, 't, 'p) sbom_env \<Rightarrow> Context \<Rightarrow> 'p sbom_options \<Rightarrow> string \<Rightarrow> 'p event list
     \<Rightarrow> SBOMError option \<times> 'p event list" where
  "readIndexAndGenerate env bc s digest tr =
     (case sbom_ReadPackageIndex env s of
        Inl err \<Rightarrow> (Some (PackageIndexError err), tr @ [CallReadPackageIndex])
      | Inr packages \<Rightarrow>
          (let s1 = setOptions s bc digest packages;
               tr1 = tr @ [CallReadPackageIndex, CallGenerate s1]
           in case sbom_Generate env s1 of
                Inl err \<Rightarrow> (Some (SBOMGenerationError err), tr1)
              | Inr _ \<Rightarrow> (None, tr1)))"

definition GenerateSBOM ::
  "('l, 't, 'p) sbom_env \<Rightarrow> Context \<Rightarrow> SBOMError option \<times> 'p event list" where
  "GenerateSBOM env bc =
     (if length (SBOMFormats bc) = 0 then (None, [Printf ''skipping SBOM generation''])
      else
        let s = sbom_NewWithWorkDir env (Context.WorkDir bc);
            tr0 = [Printf ''generating SBOM'', CallNewWithWorkDir (Context.WorkDir bc),
                   CallLayerFromFile (TarballPath bc)]
        in case v1tar_LayerFromFile env (TarballPath bc) of
             Inl err \<Rightarrow> (Some (LayerReadError err), tr0)
           | Inr v1Layer \<Rightarrow>
               (case layer_Digest env v1Layer of
                  Inl err \<Rightarrow> (Some (DigestError err), tr0 @ [CallDigest])
                | Inr digest \<Rightarrow>
                    (case Tags bc of
                       [] \<Rightarrow> readIndexAndGenerate env bc s digest (tr0 @ [CallDigest])
                     | t0 # _ \<Rightarrow>
                         (case name_NewTag env t0 of
                            Inl err \<Rightarrow>
                              (Some (TagParseError t0 err), tr0 @ [CallDigest, CallNewTag t0])
                          | Inr tag \<Rightarrow>
                              readIndexAndGenerate env bc
                                (setImageRef s (tag_TagStr env tag) (tag_String env tag))
                                digest (tr0 @ [CallDigest, CallNewTag t0])))))"

text \<open>The stages of the pipeline, for stating the order in which they run.\<close>

datatype stage = LayerRead | DigestComputation | TagParse | PackageIndexRead | Generation

fun stage_of_event :: "'p event \<Rightarrow> stage option" where
  "stage_of_event (CallLayerFromFile _) = Some LayerRead"
| "stage_of_event CallDigest = Some DigestComputation"
| "stage_of_event (CallNewTag _) = Some TagParse"
| "stage_of_event CallReadPackageIndex = Some PackageIndexRead"
| "stage_of_event (CallGenerate _) = Some Generation"
| "stage_of_event _ = None"

fun stage_of_error :: "SBOMError \<Rightarrow> stage" where
  "stage_of_error (LayerReadError _) = LayerRead"
| "stage_of_error (DigestError _) = DigestComputation"
| "stage_of_error (TagParseError _ _) = TagParse"
| "stage_of_error (PackageIndexError _) = PackageIndexRead"
| "stage_of_error (SBOMGenerationError _) = Generation"

definition stages :: "'p event list \<Rightarrow> stage list" where
  "stages tr = List.map_filter stage_of_event tr"

section \<open>Vocabulary of the properties and concrete inputs\<close>

text \<open>The zero value of the Go struct: what \<open>ImageConfiguration{}\<close> denotes.\<close>

definition emptyConfig :: ImageConfiguration where
  "emptyConfig =
     \<lparr>Contents = \<lparr>Repositories = [], Keyring = [], Packages = []\<rparr>,
      Entrypoint = \<lparr>Type = '''', Command = '''', ShellFragment = '''', Services = []\<rparr>,
      Cmd = '''',
      Accounts = \<lparr>RunAs = '''', Users = [], Groups = []\<rparr>,
      OSRelease = \<lparr>ID = '''', Name = '''', PrettyName = '''', VersionID = '''', HomeURL = ''''\<rparr>,
      VCSUrl = ''''\<rparr>"

text \<open>A user that one of the two checks of the user loop rejects.\<close>

definition invalidUser :: "User \<Rightarrow> bool" where
  "invalidUser u \<longleftrightarrow> UserName u = '''' \<or> UID u = 0"

text \<open>The error that the loop body returns for an invalid user.\<close>

definition userError :: "User \<Rightarrow> ConfigurationError" where
  "userError u = (if UserName u = '''' then UserNoName u else UserUIDZero u)"

text \<open>An error references a user when it is a user error and prints that user.\<close>

fun refersToUser :: "ConfigurationError \<Rightarrow> User \<Rightarrow> bool" where
  "refersToUser (UserNoName v) u = (v = u)"
| "refersToUser (UserUIDZero v) u = (v = u)"
| "refersToUser _ u = False"

text \<open>Concrete users, groups and configurations.\<close>

definition appUser :: User where
  "appUser = \<lparr>UserName = ''app'', UID = 1000, User.GID = 1000\<rparr>"

definition namelessUser :: User where
  "namelessUser = \<lparr>UserName = '''', UID = 5, User.GID = 5\<rparr>"

definition rootUser :: User where
  "rootUser = \<lparr>UserName = ''root'', UID = 0, User.GID = 0\<rparr>"

definition wheelGroup :: Group where
  "wheelGroup = \<lparr>GroupName = ''wheel'', Group.GID = 0, Members = [''root'']\<rparr>"

definition withUsers :: "User list \<Rightarrow> ImageConfiguration \<Rightarrow> ImageConfiguration" where
  "withUsers us ic = ic\<lparr>Accounts := (Accounts ic)\<lparr>Users := us\<rparr>\<rparr>"

definition withGroups :: "Group list \<Rightarrow> ImageConfiguration \<Rightarrow> ImageConfiguration" where
  "withGroups gs ic = ic\<lparr>Accounts := (Accounts ic)\<lparr>Groups := gs\<rparr>\<rparr>"

definition bundleConfig :: ImageConfiguration where
  "bundleConfig =
     emptyConfig\<lparr>Entrypoint := (Entrypoint emptyConfig)\<lparr>Type := ''service-bundle''\<rparr>,
                 Contents := (Contents emptyConfig)\<lparr>Packages := [''s6'', ''nginx'']\<rparr>\<rparr>"

definition fooRelease :: os_release where
  "fooRelease = \<lparr>ID = '''', Name = '''', PrettyName = ''Foo Linux'', VersionID = ''1.0'',
                  HomeURL = ''''\<rparr>"

text \<open>
  An environment in which the parent directory is a repository with an \<open>origin\<close>
  remote, and the configuration of the remote lists no URL.
\<close>

definition noUrlEnv :: "(unit, unit, string) vcs_env" where
  "noUrlEnv =
     \<lparr>filepath_Dir = (\<lambda>p. ''.''),
      git_PlainOpen = (\<lambda>d. Inr ()),
      repo_Remote = (\<lambda>r n. Inr ()),
      remote_URLs = (\<lambda>r. []),
      url_Parse = (\<lambda>s. Inr s),
      url_String = (\<lambda>u. u)\<rparr>"

text \<open>
  An environment with one repository whose \<open>origin\<close> remote has the SSH shorthand as its
  URL. The parser refuses the shorthand, as \<open>url.Parse\<close> does (its first path segment
  holds a colon), and returns every other string as it is.
\<close>

definition sshEnv :: "(unit, unit, string) vcs_env" where
  "sshEnv =
     \<lparr>filepath_Dir = (\<lambda>p. ''.''),
      git_PlainOpen = (\<lambda>d. Inr ()),
      repo_Remote = (\<lambda>r n. if n = ''origin'' then Inr () else Inl ''remote not found''),
      remote_URLs = (\<lambda>r. [''git@host:org/repo.git'']),
      url_Parse = (\<lambda>s. if s = ''git@host:org/repo.git''
                          then Inl ''first path segment in URL cannot contain colon''
                          else Inr s),
      url_String = (\<lambda>u. u)\<rparr>"

text \<open>A configuration whose only entrypoint field is the shell fragment.\<close>

definition shellOnlyConfig :: ImageConfiguration where
  "shellOnlyConfig =
     emptyConfig\<lparr>Entrypoint := (Entrypoint emptyConfig)\<lparr>ShellFragment := ''exec /bin/sh''\<rparr>\<rparr>"

text \<open>A build context with one requested format and one tag.\<close>

definition sbomContext :: Context where
  "sbomContext =
     \<lparr>WorkDir = ''/work'', SBOMFormats = [''spdx''], TarballPath = ''/work/layer.tar.gz'',
      Tags = [''bad tag''], Arch = ''amd64'', SBOMPath = ''/out''\<rparr>"

definition initialOptions :: "string \<Rightarrow> unit sbom_options" where
  "initialOptions wd =
     \<lparr>ImageInfo = \<lparr>Tag = '''', image_info.Name = '''', image_info.Arch = '''', Digest = ''''\<rparr>,
      sbom_options.WorkDir = wd, OutputDir = '''', sbom_options.Packages = [], Formats = []\<rparr>"

text \<open>Collaborators that all succeed, except that no tag parses.\<close>

definition badTagEnv :: "(unit, unit, unit) sbom_env" where
  "badTagEnv =
     \<lparr>sbom_NewWithWorkDir = initialOptions,
      v1tar_LayerFromFile = (\<lambda>p. Inr ()),
      layer_Digest = (\<lambda>l. Inr ''sha256:0000''),
      name_NewTag = (\<lambda>t. Inl ''could not parse reference''),
      tag_TagStr = (\<lambda>t. ''latest''),
      tag_String = (\<lambda>t. ''example.com/image:latest''),
      sbom_ReadPackageIndex = (\<lambda>s. Inr []),
      sbom_Generate = (\<lambda>s. Inr [])\<rparr>"

text \<open>The same, with a tarball that cannot be read.\<close>

definition noLayerEnv :: "(unit, unit, unit) sbom_env" where
  "noLayerEnv = badTagEnv\<lparr>v1tar_LayerFromFile := (\<lambda>p. Inl ''no such file'')\<rparr>"

text \<open>The order of the stages.\<close>

definition pipelineOrder :: "stage list" where
  "pipelineOrder = [LayerRead, DigestComputation, TagParse, PackageIndexRead, Generation]"

text \<open>
  The generator's options as the tag stage leaves them: the initial ones when no tag is
  configured, the ones with the image reference set when the first tag parses, and none
  when it does not parse.
\<close>

definition optionsAfterTag ::
  "('l, 't, 'p) sbom_env \<Rightarrow> Context \<Rightarrow> 'p sbom_options option" where
  "optionsAfterTag env bc =
     (case Tags bc of
        [] \<Rightarrow> Some (sbom_NewWithWorkDir env (Context.WorkDir bc))
      | t0 # _ \<Rightarrow>
          (case name_NewTag env t0 of
             Inl _ \<Rightarrow> None
           | Inr tag \<Rightarrow>
               Some (setImageRef (sbom_NewWithWorkDir env (Context.WorkDir bc))
                      (tag_TagStr env tag) (tag_String env tag))))"

text \<open>The stages that have run when the package index is about to be read.\<close>

definition stagesBeforeIndex :: "Context \<Rightarrow> stage list" where
  "stagesBeforeIndex bc =
     [LayerRead, DigestComputation] @ (if Tags bc = [] then [] else [TagParse])"

text \<open>Variants of the collaborators in which one later stage fails, or none.\<close>

definition noDigestEnv :: "(unit, unit, unit) sbom_env" where
  "noDigestEnv = badTagEnv\<lparr>layer_Digest := (\<lambda>l. Inl ''short read'')\<rparr>"

definition goodTagEnv :: "(unit, unit, unit) sbom_env" where
  "goodTagEnv = badTagEnv\<lparr>name_NewTag := (\<lambda>t. Inr ())\<rparr>"

definition noIndexEnv :: "(unit, unit, unit) sbom_env" where
  "noIndexEnv = goodTagEnv\<lparr>sbom_ReadPackageIndex := (\<lambda>s. Inl ''no installed database'')\<rparr>"

definition noGenerateEnv :: "(unit, unit, unit) sbom_env" where
  "noGenerateEnv = goodTagEnv\<lparr>sbom_Generate := (\<lambda>s. Inl ''cannot write document'')\<rparr>"

text \<open>An OSRelease with a name and no pretty name.\<close>

definition barRelease :: os_release where
  "barRelease = \<lparr>ID = '''', Name = ''Bar Linux'', PrettyName = '''', VersionID = '''',
                  HomeURL = ''''\<rparr>"

section \<open>Validate: users and groups\<close>

lemma checkUsers_find:
  "checkUsers us = map_option userError (List.find invalidUser us)"
  by (induction us) (auto simp: invalidUser_def userError_def)

lemma find_invalidUser_exists:
  "u \<in> set us \<Longrightarrow> UID u = 0 \<Longrightarrow> \<exists>v. List.find invalidUser us = Some v"
  by (cases "List.find invalidUser us") (auto simp: find_None_iff invalidUser_def)

lemma find_invalidUser_at:
  "\<forall>w\<in>set pre. \<not> invalidUser w \<Longrightarrow> invalidUser u
     \<Longrightarrow> List.find invalidUser (pre @ u # post) = Some u"
  by (induction pre) auto

lemma checkGroups_gid_zero:
  "g \<in> set gs \<Longrightarrow> Group.GID g = 0 \<Longrightarrow> checkGroups gs \<noteq> None"
  by (induction gs) auto

lemma fst_Validate:
  "fst (Validate ic) =
     (case checkUsers (Users (Accounts ic)) of
        Some e \<Rightarrow> Some e
      | None \<Rightarrow> checkGroups (Groups (Accounts ic)))"
  by (simp add: Validate_def ValidateServiceBundle_def Let_def split: option.splits)

text \<open>
  Claim C1, amended. When some user has UID 0, \<open>Validate\<close> returns an error, and the
  error is the one for the first invalid user in declaration order (the first user with
  an empty name or UID 0). It is the error for the UID-0 user itself, wherever that user
  stands in the list, when no user before it is invalid. Only this first violation is
  reported. A group with GID 0 makes \<open>Validate\<close> return an error as well: zero
  identifiers are rejected, not warned about.
\<close>

theorem Validate_rejects_uid_zero:
  "(u \<in> set (Users (Accounts ic)) \<and> UID u = 0 \<longrightarrow>
      (\<exists>v. List.find invalidUser (Users (Accounts ic)) = Some v
           \<and> fst (Validate ic) = Some (userError v)))
   \<and> (Users (Accounts ic) = pre @ u # post \<and> UID u = 0
        \<and> (\<forall>w\<in>set pre. \<not> invalidUser w) \<longrightarrow>
      fst (Validate ic) = Some (userError u) \<and> refersToUser (userError u) u)
   \<and> (g \<in> set (Groups (Accounts ic)) \<and> Group.GID g = 0 \<longrightarrow> fst (Validate ic) \<noteq> None)"
proof (intro conjI impI)
  assume "u \<in> set (Users (Accounts ic)) \<and> UID u = 0"
  then obtain v where "List.find invalidUser (Users (Accounts ic)) = Some v"
    using find_invalidUser_exists by blast
  then show "\<exists>v. List.find invalidUser (Users (Accounts ic)) = Some v
           \<and> fst (Validate ic) = Some (userError v)"
    by (simp add: fst_Validate checkUsers_find)
next
  assume a: "Users (Accounts ic) = pre @ u # post \<and> UID u = 0
        \<and> (\<forall>w\<in>set pre. \<not> invalidUser w)"
  then have "List.find invalidUser (Users (Accounts ic)) = Some u"
    using find_invalidUser_at [of pre u post] by (simp add: invalidUser_def)
  then show "fst (Validate ic) = Some (userError u)"
    by (simp add: fst_Validate checkUsers_find)
next
  show "refersToUser (userError u) u"
    by (simp add: userError_def)
next
  assume "g \<in> set (Groups (Accounts ic)) \<and> Group.GID g = 0"
  then have "checkGroups (Groups (Accounts ic)) \<noteq> None"
    using checkGroups_gid_zero by blast
  then show "fst (Validate ic) \<noteq> None"
    by (simp add: fst_Validate split: option.splits)
qed

theorem Validate_rejects_uid_zero_witness:
  "rootUser \<in> set (Users (Accounts (withGroups [wheelGroup] (withUsers [appUser, rootUser] emptyConfig))))
   \<and> UID rootUser = 0
   \<and> Users (Accounts (withGroups [wheelGroup] (withUsers [appUser, rootUser] emptyConfig)))
       = [appUser] @ rootUser # []
   \<and> \<not> invalidUser appUser
   \<and> wheelGroup \<in> set (Groups (Accounts (withGroups [wheelGroup] (withUsers [appUser, rootUser] emptyConfig))))
   \<and> Group.GID wheelGroup = 0
   \<and> fst (Validate (withGroups [wheelGroup] (withUsers [appUser, rootUser] emptyConfig)))
       = Some (UserUIDZero rootUser)"
  using Validate_rejects_uid_zero
    [of rootUser "withGroups [wheelGroup] (withUsers [appUser, rootUser] emptyConfig)"
        "[appUser]" "[]" wheelGroup]
  by (simp add: withUsers_def withGroups_def rootUser_def appUser_def wheelGroup_def
      invalidUser_def userError_def)

theorem Validate_uid_zero_counterexample:
  "rootUser \<in> set (Users (Accounts (withUsers [namelessUser, rootUser] emptyConfig)))
   \<and> UID rootUser = 0
   \<and> fst (Validate (withUsers [namelessUser, rootUser] emptyConfig))
       = Some (UserNoName namelessUser)
   \<and> \<not> refersToUser (UserNoName namelessUser) rootUser
   \<and> UID namelessUser \<noteq> 0"
  by (simp add: fst_Validate withUsers_def namelessUser_def rootUser_def emptyConfig_def)

section \<open>Validate: mutations\<close>

lemma Validate_ok:
  "Validate ic = (None, ic') \<Longrightarrow>
     ic' = (if Type (Entrypoint ic) = ''service-bundle'' then snd (ValidateServiceBundle ic) else ic)
             \<lparr>OSRelease := defaultOSRelease (OSRelease ic)\<rparr>"
  by (auto simp: Validate_def ValidateServiceBundle_def Let_def split: option.splits if_splits)

lemma Validate_error:
  "Validate ic = (Some e, ic') \<Longrightarrow>
     ic' = (if Type (Entrypoint ic) = ''service-bundle'' then snd (ValidateServiceBundle ic) else ic)"
  by (auto simp: Validate_def ValidateServiceBundle_def Let_def split: option.splits if_splits)

lemma defaultOSRelease_fields:
  "ID (defaultOSRelease r) = (if ID r = '''' then ''alpine'' else ID r)"
  "Name (defaultOSRelease r) = (if Name r = '''' then ''apko-generated image'' else Name r)"
  "PrettyName (defaultOSRelease r)
     = (if Name r = '''' then ''apko-generated image'' else PrettyName r)"
  "VersionID (defaultOSRelease r) = (if VersionID r = '''' then ''3.16'' else VersionID r)"
  "HomeURL (defaultOSRelease r)
     = (if HomeURL r = '''' then ''https://github.com/chainguard-dev/apko'' else HomeURL r)"
  "os_release.more (defaultOSRelease r) = os_release.more r"
  by (simp_all add: defaultOSRelease_def Let_def)

text \<open>
  Claim C2. When the entrypoint type is \<open>service-bundle\<close> and \<open>Validate\<close> succeeds, the
  entrypoint command is \<open>/bin/s6-svscan /sv\<close> and the package list is the old one with
  \<open>s6\<close> appended: \<open>s6\<close> is present, and it occurs once more than before, so it is
  duplicated when it was already listed.
\<close>

theorem Validate_service_bundle:
  assumes "Type (Entrypoint ic) = ''service-bundle''" and "Validate ic = (None, ic')"
  shows "Command (Entrypoint ic') = ''/bin/s6-svscan /sv''
         \<and> ''s6'' \<in> set (Packages (Contents ic'))
         \<and> Packages (Contents ic') = Packages (Contents ic) @ [''s6'']
         \<and> count_list (Packages (Contents ic')) ''s6''
             = Suc (count_list (Packages (Contents ic)) ''s6'')"
  using Validate_ok [OF assms(2)] assms(1)
  by (simp add: ValidateServiceBundle_def Let_def)

theorem Validate_service_bundle_witness:
  "Type (Entrypoint bundleConfig) = ''service-bundle''
   \<and> fst (Validate bundleConfig) = None
   \<and> Command (Entrypoint (snd (Validate bundleConfig))) = ''/bin/s6-svscan /sv''
   \<and> Packages (Contents (snd (Validate bundleConfig))) = [''s6'', ''nginx'', ''s6'']"
proof -
  have t: "Type (Entrypoint bundleConfig) = ''service-bundle''"
    by (simp add: bundleConfig_def)
  have v: "fst (Validate bundleConfig) = None"
    by (simp add: fst_Validate bundleConfig_def emptyConfig_def)
  then have "Validate bundleConfig = (None, snd (Validate bundleConfig))"
    by (metis prod.collapse)
  from Validate_service_bundle [OF t this] t v show ?thesis
    by (simp add: bundleConfig_def emptyConfig_def)
qed

lemma Validate_OSRelease_own_guard:
  assumes "Validate ic = (None, ic')"
  shows "ID (OSRelease ic') = (if ID (OSRelease ic) = '''' then ''alpine'' else ID (OSRelease ic))
    \<and> Name (OSRelease ic')
        = (if Name (OSRelease ic) = '''' then ''apko-generated image'' else Name (OSRelease ic))
    \<and> VersionID (OSRelease ic')
        = (if VersionID (OSRelease ic) = '''' then ''3.16'' else VersionID (OSRelease ic))
    \<and> HomeURL (OSRelease ic')
        = (if HomeURL (OSRelease ic) = '''' then ''https://github.com/chainguard-dev/apko''
           else HomeURL (OSRelease ic))"
proof -
  have "OSRelease ic' = defaultOSRelease (OSRelease ic)"
    using Validate_ok [OF assms] by (simp add: ValidateServiceBundle_def Let_def)
  then show ?thesis
    by (simp add: defaultOSRelease_fields)
qed

text \<open>
  Claim C3. Each OSRelease field is to be defaulted on its own, when it is empty, and a
  field that is set is to be kept. \<open>ID\<close>, \<open>Name\<close>, \<open>VersionID\<close> and \<open>HomeURL\<close> are
  each assigned under a test of the field itself; \<open>PrettyName\<close> is assigned under the
  test of \<open>Name\<close>. So a successful \<open>Validate\<close> overwrites the pretty name
  \<open>Foo Linux\<close> when the name is empty, and leaves an empty pretty name empty when the
  name is set.
\<close>

theorem Validate_PrettyName_guarded_by_Name:
  "PrettyName (OSRelease (emptyConfig\<lparr>OSRelease := fooRelease\<rparr>)) = ''Foo Linux''
   \<and> Validate (emptyConfig\<lparr>OSRelease := fooRelease\<rparr>)
       = (None, emptyConfig\<lparr>OSRelease :=
            \<lparr>ID = ''alpine'', Name = ''apko-generated image'',
             PrettyName = ''apko-generated image'', VersionID = ''1.0'',
             HomeURL = ''https://github.com/chainguard-dev/apko''\<rparr>\<rparr>)
   \<and> PrettyName (OSRelease (emptyConfig\<lparr>OSRelease := barRelease\<rparr>)) = ''''
   \<and> Validate (emptyConfig\<lparr>OSRelease := barRelease\<rparr>)
       = (None, emptyConfig\<lparr>OSRelease :=
            \<lparr>ID = ''alpine'', Name = ''Bar Linux'', PrettyName = '''', VersionID = ''3.16'',
             HomeURL = ''https://github.com/chainguard-dev/apko''\<rparr>\<rparr>)"
  by (simp add: Validate_def defaultOSRelease_def fooRelease_def barRelease_def
      emptyConfig_def Let_def)

text \<open>
  Claim C4. The OSRelease defaulting step of \<open>Validate\<close> is idempotent: applied twice it
  yields the same fields as applied once.
\<close>

theorem defaultOSRelease_idempotent:
  "defaultOSRelease (defaultOSRelease r) = defaultOSRelease r"
  by (rule os_release.equality) (simp_all add: defaultOSRelease_fields)

text \<open>
  Claim C10. When \<open>Validate\<close> returns an error, the OSRelease fields are as they were
  before the call; if the entrypoint type is \<open>service-bundle\<close>, the entrypoint command
  and the package list are the mutated ones all the same, so the configuration differs
  from the one passed in.
\<close>

theorem Validate_not_atomic:
  assumes "Validate ic = (Some e, ic')"
  shows "OSRelease ic' = OSRelease ic
    \<and> (Type (Entrypoint ic) = ''service-bundle'' \<longrightarrow>
         Command (Entrypoint ic') = ''/bin/s6-svscan /sv''
         \<and> Packages (Contents ic') = Packages (Contents ic) @ [''s6'']
         \<and> ic' \<noteq> ic)"
proof (intro conjI impI)
  show "OSRelease ic' = OSRelease ic"
    using Validate_error [OF assms] by (simp add: ValidateServiceBundle_def Let_def)
next
  assume t: "Type (Entrypoint ic) = ''service-bundle''"
  show "Command (Entrypoint ic') = ''/bin/s6-svscan /sv''"
    using Validate_error [OF assms] t by (simp add: ValidateServiceBundle_def Let_def)
  show p: "Packages (Contents ic') = Packages (Contents ic) @ [''s6'']"
    using Validate_error [OF assms] t by (simp add: ValidateServiceBundle_def Let_def)
  show "ic' \<noteq> ic"
  proof
    assume "ic' = ic"
    with p have "Packages (Contents ic) = Packages (Contents ic) @ [''s6'']"
      by simp
    then show False by simp
  qed
qed

theorem Validate_not_atomic_witness:
  "Type (Entrypoint (withUsers [rootUser] bundleConfig)) = ''service-bundle''
   \<and> fst (Validate (withUsers [rootUser] bundleConfig)) = Some (UserUIDZero rootUser)
   \<and> OSRelease (snd (Validate (withUsers [rootUser] bundleConfig)))
       = OSRelease (withUsers [rootUser] bundleConfig)
   \<and> Command (Entrypoint (withUsers [rootUser] bundleConfig)) = ''''
   \<and> Command (Entrypoint (snd (Validate (withUsers [rootUser] bundleConfig))))
       = ''/bin/s6-svscan /sv''
   \<and> Packages (Contents (snd (Validate (withUsers [rootUser] bundleConfig))))
       = [''s6'', ''nginx'', ''s6'']"
proof -
  have t: "Type (Entrypoint (withUsers [rootUser] bundleConfig)) = ''service-bundle''"
    by (simp add: withUsers_def bundleConfig_def)
  have v: "fst (Validate (withUsers [rootUser] bundleConfig)) = Some (UserUIDZero rootUser)"
    by (simp add: fst_Validate withUsers_def rootUser_def)
  then have "Validate (withUsers [rootUser] bundleConfig)
               = (Some (UserUIDZero rootUser), snd (Validate (withUsers [rootUser] bundleConfig)))"
    by (metis prod.collapse)
  from Validate_not_atomic [OF this] t v show ?thesis
    by (simp add: withUsers_def bundleConfig_def emptyConfig_def)
qed

section \<open>ProbeVCSUrl: failures and the SSH shorthand\<close>

lemma ProbeVCSUrl_returns:
  assumes "\<forall>remote. remote_URLs env remote \<noteq> []"
  shows "\<exists>ic' lg. ProbeVCSUrl env ic p = Inr (ic', lg)
           \<and> (ic' = ic \<or> (\<exists>s. ic' = ic\<lparr>VCSUrl := s\<rparr> \<and> lg = [(''detected %s as VCS URL'', [AStr s])]))"
  using assms
  by (auto simp: ProbeVCSUrl_def storeVCSUrl_def Let_def split: sum.splits list.splits)

lemma ProbeVCSUrl_failures:
  "filepath_Dir env p = '''' \<Longrightarrow> ProbeVCSUrl env ic p = Inr (ic, [])"
  "filepath_Dir env p \<noteq> '''' \<Longrightarrow> git_PlainOpen env (filepath_Dir env p) = Inl e
     \<Longrightarrow> ProbeVCSUrl env ic p = Inr (ic, [(''unable to determine git vcs url: %v'', [AStr e])])"
  "filepath_Dir env p \<noteq> '''' \<Longrightarrow> git_PlainOpen env (filepath_Dir env p) = Inr repo
     \<Longrightarrow> repo_Remote env repo ''origin'' = Inl e
     \<Longrightarrow> ProbeVCSUrl env ic p = Inr (ic, [(''unable to determine git vcs url: %v'', [AStr e])])"
  by (simp_all add: ProbeVCSUrl_def Let_def)

text \<open>
  Claim C5. \<open>ProbeVCSUrl\<close> is a best-effort probe that is to return normally whatever
  fails. The slice index \<open>remoteConfig.URLs[0]\<close> is unchecked: when the repository opens
  and has an \<open>origin\<close> remote whose configuration lists no URL, the function panics
  instead of returning.
\<close>

theorem ProbeVCSUrl_empty_URLs_panics:
  "git_PlainOpen noUrlEnv (filepath_Dir noUrlEnv ''apko.yaml'') = Inr ()
   \<and> repo_Remote noUrlEnv () ''origin'' = Inr ()
   \<and> remote_URLs noUrlEnv () = []
   \<and> ProbeVCSUrl noUrlEnv emptyConfig ''apko.yaml'' = Inl (IndexOutOfRange 0 0)"
  by (simp add: ProbeVCSUrl_def noUrlEnv_def)

text \<open>
  Claim C6. When the first URL of the \<open>origin\<close> remote fails \<open>url.Parse\<close>, its first
  colon is replaced by a slash, \<open>git+ssh://\<close> is put in front, the result is parsed
  again, and the string of the parsed URL is stored into \<open>VCSUrl\<close>. For the SSH
  shorthand \<open>git@host:org/repo.git\<close> the string that is parsed again is
  \<open>git+ssh://git@host/org/repo.git\<close>.
\<close>

theorem ProbeVCSUrl_ssh_shorthand:
  assumes "filepath_Dir env p \<noteq> ''''"
    and "git_PlainOpen env (filepath_Dir env p) = Inr repo"
    and "repo_Remote env repo ''origin'' = Inr remote"
    and "remote_URLs env remote = r # rest"
    and "url_Parse env r = Inl e"
    and "url_Parse env (''git+ssh://'' @ replaceFirst CHR '':'' CHR ''/'' r) = Inr n"
  shows "ProbeVCSUrl env ic p
           = Inr (ic\<lparr>VCSUrl := url_String env n\<rparr>,
                  [(''detected %s as VCS URL'', [AStr (url_String env n)])])
         \<and> (r = ''git@host:org/repo.git'' \<longrightarrow>
              ''git+ssh://'' @ replaceFirst CHR '':'' CHR ''/'' r
                = ''git+ssh://git@host/org/repo.git'')"
  using assms by (simp add: ProbeVCSUrl_def storeVCSUrl_def Let_def)

theorem ProbeVCSUrl_ssh_shorthand_witness:
  "filepath_Dir sshEnv ''apko.yaml'' \<noteq> ''''
   \<and> git_PlainOpen sshEnv (filepath_Dir sshEnv ''apko.yaml'') = Inr ()
   \<and> repo_Remote sshEnv () ''origin'' = Inr ()
   \<and> remote_URLs sshEnv () = ''git@host:org/repo.git'' # []
   \<and> url_Parse sshEnv ''git@host:org/repo.git''
       = Inl ''first path segment in URL cannot contain colon''
   \<and> url_Parse sshEnv (''git+ssh://'' @ replaceFirst CHR '':'' CHR ''/'' ''git@host:org/repo.git'')
       = Inr ''git+ssh://git@host/org/repo.git''
   \<and> ProbeVCSUrl sshEnv emptyConfig ''apko.yaml''
       = Inr (emptyConfig\<lparr>VCSUrl := ''git+ssh://git@host/org/repo.git''\<rparr>,
              [(''detected %s as VCS URL'', [AStr ''git+ssh://git@host/org/repo.git''])])"
  using ProbeVCSUrl_ssh_shorthand
    [of sshEnv "''apko.yaml''" "()" "()" "''git@host:org/repo.git''" "[]"
        "''first path segment in URL cannot contain colon''"
        "''git+ssh://git@host/org/repo.git''" emptyConfig]
  by (simp add: sshEnv_def)

section \<open>Summarize: which blocks are printed\<close>

lemma Summarize_blocks:
  "(''  contents:'', []) \<in> set (Summarize ic)"
  "(''  entrypoint:'', []) \<in> set (Summarize ic) \<longleftrightarrow>
     Type (Entrypoint ic) \<noteq> '''' \<or> Command (Entrypoint ic) \<noteq> '''' \<or> Services (Entrypoint ic) \<noteq> []"
  "(''  accounts:'', []) \<in> set (Summarize ic) \<longleftrightarrow>
     RunAs (Accounts ic) \<noteq> '''' \<or> Users (Accounts ic) \<noteq> [] \<or> Groups (Accounts ic) \<noteq> []"
  by (auto simp: Summarize_def)

text \<open>
  Claim C9. The entrypoint block is to be printed when a field of the block is
  non-empty. The guard tests type, command and services but not the shell fragment,
  which the block prints: a configuration whose only entrypoint field is the shell
  fragment gets the contents block and no entrypoint block.
\<close>

theorem Summarize_shell_fragment_only:
  "ShellFragment (Entrypoint shellOnlyConfig) \<noteq> ''''
   \<and> (''  entrypoint:'', []) \<notin> set (Summarize shellOnlyConfig)
   \<and> Summarize shellOnlyConfig =
       [(''image configuration:'', []),
        (''  contents:'', []),
        (''    repositories: %v'', [AStrs []]),
        (''    keyring:      %v'', [AStrs []]),
        (''    packages:     %v'', [AStrs []])]"
  by (simp add: Summarize_def shellOnlyConfig_def emptyConfig_def)

theorem Summarize_shell_fragment_only_witness:
  "ShellFragment (Entrypoint shellOnlyConfig) = ''exec /bin/sh''
   \<and> length (Summarize shellOnlyConfig) = 5
   \<and> (''    shell fragment: %v'', [AStr ''exec /bin/sh'']) \<notin> set (Summarize shellOnlyConfig)"
  using Summarize_shell_fragment_only
  by (simp add: shellOnlyConfig_def emptyConfig_def)

section \<open>GenerateSBOM: skipping, failing, order of the stages\<close>

text \<open>
  Claim C7. With an empty list of requested SBOM formats \<open>GenerateSBOM\<close> returns success
  and does nothing but print the diagnostic: no stage of the pipeline runs, in
  particular no digest computation and no package-index read.
\<close>

theorem GenerateSBOM_no_formats:
  assumes "SBOMFormats bc = []"
  shows "GenerateSBOM env bc = (None, [Printf ''skipping SBOM generation''])
         \<and> stages (snd (GenerateSBOM env bc)) = []
         \<and> CallDigest \<notin> set (snd (GenerateSBOM env bc))
         \<and> CallReadPackageIndex \<notin> set (snd (GenerateSBOM env bc))"
  using assms by (simp add: GenerateSBOM_def stages_def)

theorem GenerateSBOM_no_formats_witness:
  "SBOMFormats (sbomContext\<lparr>SBOMFormats := []\<rparr>) = []
   \<and> GenerateSBOM badTagEnv (sbomContext\<lparr>SBOMFormats := []\<rparr>)
       = (None, [Printf ''skipping SBOM generation''])"
  using GenerateSBOM_no_formats [of "sbomContext\<lparr>SBOMFormats := []\<rparr>" badTagEnv]
  by simp

lemma GenerateSBOM_stage_order:
  "subseq (stages (snd (GenerateSBOM env bc))) pipelineOrder"
  "fst (GenerateSBOM env bc) = Some err \<Longrightarrow>
     stages (snd (GenerateSBOM env bc)) \<noteq> []
     \<and> stage_of_error err = last (stages (snd (GenerateSBOM env bc)))"
  by (auto simp: GenerateSBOM_def readIndexAndGenerate_def stages_def pipelineOrder_def Let_def split: sum.splits list.splits)

lemma GenerateSBOM_tag_fails:
  "SBOMFormats bc \<noteq> [] \<and> Tags bc = t # ts \<and> name_NewTag env t = Inl e \<longrightarrow>
      (\<exists>err. fst (GenerateSBOM env bc) = Some err
         \<and> CallReadPackageIndex \<notin> set (snd (GenerateSBOM env bc))
         \<and> (\<forall>l d. v1tar_LayerFromFile env (TarballPath bc) = Inr l \<and> layer_Digest env l = Inr d
               \<longrightarrow> err = TagParseError t e))"
  by (auto simp: GenerateSBOM_def Let_def split: sum.splits)

lemma GenerateSBOM_error_last_stage:
  "\<forall>err. fst (GenerateSBOM env bc) = Some err \<longrightarrow>
         stages (snd (GenerateSBOM env bc)) \<noteq> []
         \<and> stage_of_error err = last (stages (snd (GenerateSBOM env bc)))"
  using GenerateSBOM_stage_order(2) by blast

lemma GenerateSBOM_layer_stage:
  "SBOMFormats bc \<noteq> [] \<and> v1tar_LayerFromFile env (TarballPath bc) = Inl e1 \<longrightarrow>
     fst (GenerateSBOM env bc) = Some (LayerReadError e1)
     \<and> stages (snd (GenerateSBOM env bc)) = [LayerRead]"
  by (simp add: GenerateSBOM_def stages_def Let_def)

lemma GenerateSBOM_digest_stage:
  "SBOMFormats bc \<noteq> [] \<and> v1tar_LayerFromFile env (TarballPath bc) = Inr l
     \<and> layer_Digest env l = Inl e2 \<longrightarrow>
     fst (GenerateSBOM env bc) = Some (DigestError e2)
     \<and> stages (snd (GenerateSBOM env bc)) = [LayerRead, DigestComputation]"
  by (simp add: GenerateSBOM_def stages_def Let_def)

lemma GenerateSBOM_tag_stage:
  "SBOMFormats bc \<noteq> [] \<and> v1tar_LayerFromFile env (TarballPath bc) = Inr l
     \<and> layer_Digest env l = Inr d \<and> Tags bc = t # ts \<and> name_NewTag env t = Inl e \<longrightarrow>
     fst (GenerateSBOM env bc) = Some (TagParseError t e)
     \<and> stages (snd (GenerateSBOM env bc)) = [LayerRead, DigestComputation, TagParse]"
  by (simp add: GenerateSBOM_def stages_def Let_def)

lemma GenerateSBOM_index_stage:
  "SBOMFormats bc \<noteq> [] \<and> v1tar_LayerFromFile env (TarballPath bc) = Inr l
     \<and> layer_Digest env l = Inr d \<and> optionsAfterTag env bc = Some s
     \<and> sbom_ReadPackageIndex env s = Inl e3 \<longrightarrow>
     fst (GenerateSBOM env bc) = Some (PackageIndexError e3)
     \<and> stages (snd (GenerateSBOM env bc)) = stagesBeforeIndex bc @ [PackageIndexRead]"
  by (auto simp: GenerateSBOM_def readIndexAndGenerate_def optionsAfterTag_def
      stagesBeforeIndex_def stages_def Let_def split: list.splits sum.splits)

lemma GenerateSBOM_generation_stage:
  "SBOMFormats bc \<noteq> [] \<and> v1tar_LayerFromFile env (TarballPath bc) = Inr l
     \<and> layer_Digest env l = Inr d \<and> optionsAfterTag env bc = Some s
     \<and> sbom_ReadPackageIndex env s = Inr pkgs
     \<and> sbom_Generate env (setOptions s bc d pkgs) = Inl e4 \<longrightarrow>
     fst (GenerateSBOM env bc) = Some (SBOMGenerationError e4)
     \<and> stages (snd (GenerateSBOM env bc))
         = stagesBeforeIndex bc @ [PackageIndexRead, Generation]"
  by (auto simp: GenerateSBOM_def readIndexAndGenerate_def optionsAfterTag_def
      stagesBeforeIndex_def stages_def Let_def split: list.splits sum.splits)

lemma GenerateSBOM_all_stages:
  "SBOMFormats bc \<noteq> [] \<and> v1tar_LayerFromFile env (TarballPath bc) = Inr l
     \<and> layer_Digest env l = Inr d \<and> optionsAfterTag env bc = Some s
     \<and> sbom_ReadPackageIndex env s = Inr pkgs
     \<and> sbom_Generate env (setOptions s bc d pkgs) = Inr out \<longrightarrow>
     fst (GenerateSBOM env bc) = None
     \<and> stages (snd (GenerateSBOM env bc))
         = stagesBeforeIndex bc @ [PackageIndexRead, Generation]"
  by (auto simp: GenerateSBOM_def readIndexAndGenerate_def optionsAfterTag_def
      stagesBeforeIndex_def stages_def Let_def split: list.splits sum.splits)

lemma sbomContext_simps:
  "SBOMFormats sbomContext = [''spdx'']" "Tags sbomContext = [''bad tag'']"
  "TarballPath sbomContext = ''/work/layer.tar.gz''" "Context.WorkDir sbomContext = ''/work''"
  by (simp_all add: sbomContext_def)

text \<open>
  Claim C8, amended. With at least one requested format and an unparsable first tag,
  \<open>GenerateSBOM\<close> fails and reads no package index; the error is the tag-parse error
  when the layer read and the digest computation succeed, and otherwise the layer-read
  or the digest error of the stage that failed before. In every run the stages follow
  the order layer read, digest, tag parse, package-index read, generation. The first
  stage that fails ends the run with its own error and is the last stage that ran: a
  failing layer read gives the layer-read error, a failing digest the digest error, a
  failing tag parse the tag-parse error, a failing package-index read the package-index
  error, a failing generation the generation error; the result is success when every
  stage succeeds.
\<close>

theorem GenerateSBOM_bad_tag:
  "(SBOMFormats bc \<noteq> [] \<and> Tags bc = t # ts \<and> name_NewTag env t = Inl e \<longrightarrow>
      (\<exists>err. fst (GenerateSBOM env bc) = Some err
         \<and> CallReadPackageIndex \<notin> set (snd (GenerateSBOM env bc))
         \<and> (\<forall>l d. v1tar_LayerFromFile env (TarballPath bc) = Inr l \<and> layer_Digest env l = Inr d
               \<longrightarrow> err = TagParseError t e)))
   \<and> subseq (stages (snd (GenerateSBOM env bc))) pipelineOrder
   \<and> (\<forall>err. fst (GenerateSBOM env bc) = Some err \<longrightarrow>
         stages (snd (GenerateSBOM env bc)) \<noteq> []
         \<and> stage_of_error err = last (stages (snd (GenerateSBOM env bc))))
   \<and> (SBOMFormats bc \<noteq> [] \<and> v1tar_LayerFromFile env (TarballPath bc) = Inl e1 \<longrightarrow>
         fst (GenerateSBOM env bc) = Some (LayerReadError e1)
         \<and> stages (snd (GenerateSBOM env bc)) = [LayerRead])
   \<and> (SBOMFormats bc \<noteq> [] \<and> v1tar_LayerFromFile env (TarballPath bc) = Inr l
         \<and> layer_Digest env l = Inl e2 \<longrightarrow>
         fst (GenerateSBOM env bc) = Some (DigestError e2)
         \<and> stages (snd (GenerateSBOM env bc)) = [LayerRead, DigestComputation])
   \<and> (SBOMFormats bc \<noteq> [] \<and> v1tar_LayerFromFile env (TarballPath bc) = Inr l
         \<and> layer_Digest env l = Inr d \<and> Tags bc = t # ts \<and> name_NewTag env t = Inl e \<longrightarrow>
         fst (GenerateSBOM env bc) = Some (TagParseError t e)
         \<and> stages (snd (GenerateSBOM env bc)) = [LayerRead, DigestComputation, TagParse])
   \<and> (SBOMFormats bc \<noteq> [] \<and> v1tar_LayerFromFile env (TarballPath bc) = Inr l
         \<and> layer_Digest env l = Inr d \<and> optionsAfterTag env bc = Some s
         \<and> sbom_ReadPackageIndex env s = Inl e3 \<longrightarrow>
         fst (GenerateSBOM env bc) = Some (PackageIndexError e3)
         \<and> stages (snd (GenerateSBOM env bc)) = stagesBeforeIndex bc @ [PackageIndexRead])
   \<and> (SBOMFormats bc \<noteq> [] \<and> v1tar_LayerFromFile env (TarballPath bc) = Inr l
         \<and> layer_Digest env l = Inr d \<and> optionsAfterTag env bc = Some s
         \<and> sbom_ReadPackageIndex env s = Inr pkgs
         \<and> sbom_Generate env (setOptions s bc d pkgs) = Inl e4 \<longrightarrow>
         fst (GenerateSBOM env bc) = Some (SBOMGenerationError e4)
         \<and> stages (snd (GenerateSBOM env bc))
             = stagesBeforeIndex bc @ [PackageIndexRead, Generation])
   \<and> (SBOMFormats bc \<noteq> [] \<and> v1tar_LayerFromFile env (TarballPath bc) = Inr l
         \<and> layer_Digest env l = Inr d \<and> optionsAfterTag env bc = Some s
         \<and> sbom_ReadPackageIndex env s = Inr pkgs
         \<and> sbom_Generate env (setOptions s bc d pkgs) = Inr out \<longrightarrow>
         fst (GenerateSBOM env bc) = None
         \<and> stages (snd (GenerateSBOM env bc))
             = stagesBeforeIndex bc @ [PackageIndexRead, Generation])"
  by (intro conjI GenerateSBOM_tag_fails GenerateSBOM_stage_order(1)
      GenerateSBOM_error_last_stage GenerateSBOM_layer_stage GenerateSBOM_digest_stage
      GenerateSBOM_tag_stage GenerateSBOM_index_stage GenerateSBOM_generation_stage
      GenerateSBOM_all_stages)

theorem GenerateSBOM_bad_tag_witness:
  "SBOMFormats sbomContext \<noteq> []
   \<and> Tags sbomContext = ''bad tag'' # []
   \<and> name_NewTag badTagEnv ''bad tag'' = Inl ''could not parse reference''
   \<and> v1tar_LayerFromFile badTagEnv (TarballPath sbomContext) = Inr ()
   \<and> layer_Digest badTagEnv () = Inr ''sha256:0000''
   \<and> GenerateSBOM badTagEnv sbomContext
       = (Some (TagParseError ''bad tag'' ''could not parse reference''),
          [Printf ''generating SBOM'', CallNewWithWorkDir ''/work'',
           CallLayerFromFile ''/work/layer.tar.gz'', CallDigest, CallNewTag ''bad tag''])
   \<and> stages (snd (GenerateSBOM badTagEnv sbomContext))
       = [LayerRead, DigestComputation, TagParse]
   \<and> v1tar_LayerFromFile noLayerEnv (TarballPath sbomContext) = Inl ''no such file''
   \<and> fst (GenerateSBOM noLayerEnv sbomContext) = Some (LayerReadError ''no such file'')
   \<and> layer_Digest noDigestEnv () = Inl ''short read''
   \<and> fst (GenerateSBOM noDigestEnv sbomContext) = Some (DigestError ''short read'')
   \<and> optionsAfterTag noIndexEnv sbomContext
       = Some (setImageRef (initialOptions ''/work'') ''latest'' ''example.com/image:latest'')
   \<and> sbom_ReadPackageIndex noIndexEnv
         (setImageRef (initialOptions ''/work'') ''latest'' ''example.com/image:latest'')
       = Inl ''no installed database''
   \<and> fst (GenerateSBOM noIndexEnv sbomContext) = Some (PackageIndexError ''no installed database'')
   \<and> stages (snd (GenerateSBOM noIndexEnv sbomContext))
       = [LayerRead, DigestComputation, TagParse, PackageIndexRead]
   \<and> fst (GenerateSBOM noGenerateEnv sbomContext)
       = Some (SBOMGenerationError ''cannot write document'')
   \<and> fst (GenerateSBOM goodTagEnv sbomContext) = None
   \<and> stages (snd (GenerateSBOM goodTagEnv sbomContext)) = pipelineOrder"
proof -
  let ?s = "setImageRef (initialOptions ''/work'') ''latest'' ''example.com/image:latest''"
  have tag: "GenerateSBOM badTagEnv sbomContext
       = (Some (TagParseError ''bad tag'' ''could not parse reference''),
          [Printf ''generating SBOM'', CallNewWithWorkDir ''/work'',
           CallLayerFromFile ''/work/layer.tar.gz'', CallDigest, CallNewTag ''bad tag''])"
    by (simp add: GenerateSBOM_def sbomContext_simps badTagEnv_def)
  have tag_stages: "stages (snd (GenerateSBOM badTagEnv sbomContext))
       = [LayerRead, DigestComputation, TagParse]"
    using GenerateSBOM_bad_tag
      [where env = badTagEnv and bc = sbomContext and t = "''bad tag''" and ts = "[]"
         and e = "''could not parse reference''" and l = "()" and d = "''sha256:0000''"]
    by (simp add: sbomContext_simps badTagEnv_def)
  have layer: "fst (GenerateSBOM noLayerEnv sbomContext) = Some (LayerReadError ''no such file'')"
    using GenerateSBOM_bad_tag
      [where env = noLayerEnv and bc = sbomContext and ?e1.0 = "''no such file''"]
    by (simp add: sbomContext_simps noLayerEnv_def)
  have digest: "fst (GenerateSBOM noDigestEnv sbomContext) = Some (DigestError ''short read'')"
    using GenerateSBOM_bad_tag
      [where env = noDigestEnv and bc = sbomContext and l = "()" and ?e2.0 = "''short read''"]
    by (simp add: sbomContext_simps noDigestEnv_def badTagEnv_def)
  have opts: "optionsAfterTag noIndexEnv sbomContext = Some ?s"
       "optionsAfterTag noGenerateEnv sbomContext = Some ?s"
       "optionsAfterTag goodTagEnv sbomContext = Some ?s"
    by (simp_all add: optionsAfterTag_def sbomContext_simps noIndexEnv_def noGenerateEnv_def
        goodTagEnv_def badTagEnv_def)
  have index: "fst (GenerateSBOM noIndexEnv sbomContext)
                 = Some (PackageIndexError ''no installed database'')
               \<and> stages (snd (GenerateSBOM noIndexEnv sbomContext))
                 = [LayerRead, DigestComputation, TagParse, PackageIndexRead]"
    using GenerateSBOM_bad_tag
      [where env = noIndexEnv and bc = sbomContext and l = "()" and d = "''sha256:0000''"
         and s = ?s and ?e3.0 = "''no installed database''"] opts(1)
    by (simp add: sbomContext_simps stagesBeforeIndex_def noIndexEnv_def goodTagEnv_def
        badTagEnv_def)
  have gen: "fst (GenerateSBOM noGenerateEnv sbomContext)
               = Some (SBOMGenerationError ''cannot write document'')"
    using GenerateSBOM_bad_tag
      [where env = noGenerateEnv and bc = sbomContext and l = "()" and d = "''sha256:0000''"
         and s = ?s and pkgs = "[]" and ?e4.0 = "''cannot write document''"] opts(2)
    by (simp add: sbomContext_simps noGenerateEnv_def goodTagEnv_def badTagEnv_def)
  have ok: "fst (GenerateSBOM goodTagEnv sbomContext) = None
            \<and> stages (snd (GenerateSBOM goodTagEnv sbomContext)) = pipelineOrder"
    using GenerateSBOM_bad_tag
      [where env = goodTagEnv and bc = sbomContext and l = "()" and d = "''sha256:0000''"
         and s = ?s and pkgs = "[]" and out = "[]"] opts(3)
    by (simp add: sbomContext_simps stagesBeforeIndex_def pipelineOrder_def goodTagEnv_def
        badTagEnv_def)
  have facts: "SBOMFormats sbomContext \<noteq> []" "Tags sbomContext = ''bad tag'' # []"
    "name_NewTag badTagEnv ''bad tag'' = Inl ''could not parse reference''"
    "v1tar_LayerFromFile badTagEnv (TarballPath sbomContext) = Inr ()"
    "layer_Digest badTagEnv () = Inr ''sha256:0000''"
    "v1tar_LayerFromFile noLayerEnv (TarballPath sbomContext) = Inl ''no such file''"
    "layer_Digest noDigestEnv () = Inl ''short read''"
    "sbom_ReadPackageIndex noIndexEnv ?s = Inl ''no installed database''"
    by (simp_all add: sbomContext_simps badTagEnv_def noLayerEnv_def noDigestEnv_def
        noIndexEnv_def goodTagEnv_def)
  from tag tag_stages layer digest opts(1) index gen ok facts show ?thesis
    by (intro conjI) (simp_all only: simp_thms)
qed

theorem GenerateSBOM_bad_tag_counterexample:
  "SBOMFormats sbomContext \<noteq> []
   \<and> Tags sbomContext = [''bad tag'']
   \<and> name_NewTag noLayerEnv ''bad tag'' = Inl ''could not parse reference''
   \<and> GenerateSBOM noLayerEnv sbomContext
       = (Some (LayerReadError ''no such file''),
          [Printf ''generating SBOM'', CallNewWithWorkDir ''/work'',
           CallLayerFromFile ''/work/layer.tar.gz''])"
  by (simp add: GenerateSBOM_def noLayerEnv_def badTagEnv_def sbomContext_def)

end
